theory Spec2Isabelle
  imports Main
begin

section \<open>Python strings\<close>

text \<open>
  A Python \<open>str\<close> is modelled as a \<^typ>\<open>string\<close>: a list of characters with code points
  below 256, \<^const>\<open>length\<close> counting characters as Python's \<open>len\<close> does. The helpers
  below follow \<open>str.isspace\<close>, \<open>str.strip\<close> and \<open>str.lower\<close> on that range.
\<close>

definition code :: "char \<Rightarrow> nat" where
  "code c = of_char c"

definition isspace :: "char \<Rightarrow> bool" where
  "isspace c = ((9 \<le> code c \<and> code c \<le> 13) \<or> (28 \<le> code c \<and> code c \<le> 32)
                 \<or> code c = 133 \<or> code c = 160)"

definition strip :: "string \<Rightarrow> string" where
  "strip s = rev (dropWhile isspace (rev (dropWhile isspace s)))"

text \<open>
  Lower-casing adds 32 to the code point of an upper-case letter (\<open>A\<close> to \<open>Z\<close>, and the
  accented capitals 192 to 222 except the multiplication sign 215). Bit 5 is clear in both
  ranges, so adding 32 is setting that bit.
\<close>

definition lower_char :: "char \<Rightarrow> char" where
  "lower_char c =
     (if (65 \<le> code c \<and> code c \<le> 90) \<or> (192 \<le> code c \<and> code c \<le> 222 \<and> code c \<noteq> 215)
      then (case c of Char b0 b1 b2 b3 b4 b5 b6 b7 \<Rightarrow> Char b0 b1 b2 b3 b4 True b6 b7)
      else c)"

definition lower :: "string \<Rightarrow> string" where
  "lower s = map lower_char s"

subsection \<open>The character classes of the regular expressions in serializers.py\<close>

definition cls_upper :: "char \<Rightarrow> bool" where    \<comment> \<open>\<open>[A-Z]\<close>\<close>
  "cls_upper c = (65 \<le> code c \<and> code c \<le> 90)"

definition cls_lower :: "char \<Rightarrow> bool" where    \<comment> \<open>\<open>[a-z]\<close>\<close>
  "cls_lower c = (97 \<le> code c \<and> code c \<le> 122)"

definition cls_digit :: "char \<Rightarrow> bool" where    \<comment> \<open>\<open>\d\<close>, and \<open>[0-9]\<close>\<close>
  "cls_digit c = (48 \<le> code c \<and> code c \<le> 57)"

definition cls_special :: "char \<Rightarrow> bool" where  \<comment> \<open>\<open>[!@#$%^&*(),.?":{}|<>]\<close>\<close>
  "cls_special c = (c \<in> set [CHR ''!'', CHR ''@'', CHR ''#'', CHR ''$'', CHR ''%'', CHR ''^'',
       CHR ''&'', CHR ''*'', CHR ''('', CHR '')'', CHR '','', CHR ''.'', CHR ''?'', CHR 0x22,
       CHR '':'', CHR ''{'', CHR ''}'', CHR ''|'', CHR ''<'', CHR ''>''])"

text \<open>\<open>re.search\<close> with a pattern that is one character class: scan for the first match.\<close>

fun re_search :: "(char \<Rightarrow> bool) \<Rightarrow> string \<Rightarrow> bool" where
  "re_search cls [] = False"
| "re_search cls (c # cs) = (if cls c then True else re_search cls cs)"

section \<open>Password strength (serializers.py)\<close>

text \<open>
  \<open>django.contrib.auth.password_validation.validate_password\<close> is the pluggable generic
  policy: it is a parameter that returns the messages of the validators that fail, the
  empty list when it accepts. A \<open>serializers.ValidationError\<close> raised by a field method
  is the list of its messages, \<open>Inl\<close>.
\<close>

definition UserSignupSerializer_validate_password ::
    "(string \<Rightarrow> string list) \<Rightarrow> string \<Rightarrow> string list + string" where
  "UserSignupSerializer_validate_password validate_password_policy v =
     (if length v < 8 then Inl [''Password must be at least 8 characters long.'']
      else if \<not> re_search cls_upper v
        then Inl [''Password must contain at least one uppercase letter.'']
      else if \<not> re_search cls_lower v
        then Inl [''Password must contain at least one lowercase letter.'']
      else if \<not> re_search cls_digit v
        then Inl [''Password must contain at least one digit.'']
      else if \<not> re_search cls_special v
        then Inl [''Password must contain at least one special character.'']
      else (case validate_password_policy v of
              [] \<Rightarrow> Inr v
            | m # ms \<Rightarrow> Inl (m # ms)))"

definition ChangePasswordSerializer_validate_new_password ::
    "(string \<Rightarrow> string list) \<Rightarrow> string \<Rightarrow> string list + string" where
  "ChangePasswordSerializer_validate_new_password validate_password_policy v =
     (if length v < 8 then Inl [''Password must be at least 8 characters long.'']
      else if \<not> re_search cls_upper v
        then Inl [''Password must contain at least one uppercase letter.'']
      else if \<not> re_search cls_lower v
        then Inl [''Password must contain at least one lowercase letter.'']
      else if \<not> re_search cls_digit v
        then Inl [''Password must contain at least one digit.'']
      else if \<not> re_search cls_special v
        then Inl [''Password must contain at least one special character.'']
      else (case validate_password_policy v of
              [] \<Rightarrow> Inr v
            | m # ms \<Rightarrow> Inl (m # ms)))"






section \<open>The e-mail pattern (serializers.py)\<close>

text \<open>
  \<open>re.match(r'^[a-zA-Z0-9._%+-]+@[a-zA-Z0-9.-]+\.[a-zA-Z]{2,}$', value)\<close>: a regular
  expression is a term, matched by derivatives. \<open>$\<close> matches at the end of the string and
  also just before a newline that ends it.
\<close>

datatype regex =
    Zero
  | Eps
  | Cls "char \<Rightarrow> bool"
  | Alt regex regex
  | Seq regex regex
  | Star regex

fun nullable :: "regex \<Rightarrow> bool" where
  "nullable Zero = False"
| "nullable Eps = True"
| "nullable (Cls P) = False"
| "nullable (Alt r s) = (nullable r \<or> nullable s)"
| "nullable (Seq r s) = (nullable r \<and> nullable s)"
| "nullable (Star r) = True"

fun deriv :: "char \<Rightarrow> regex \<Rightarrow> regex" where
  "deriv c Zero = Zero"
| "deriv c Eps = Zero"
| "deriv c (Cls P) = (if P c then Eps else Zero)"
| "deriv c (Alt r s) = Alt (deriv c r) (deriv c s)"
| "deriv c (Seq r s) =
     (if nullable r then Alt (Seq (deriv c r) s) (deriv c s) else Seq (deriv c r) s)"
| "deriv c (Star r) = Seq (deriv c r) (Star r)"

fun matches :: "regex \<Rightarrow> string \<Rightarrow> bool" where
  "matches r [] = nullable r"
| "matches r (c # cs) = matches (deriv c r) cs"

definition Plus :: "regex \<Rightarrow> regex" where
  "Plus r = Seq r (Star r)"

definition cls_alpha :: "char \<Rightarrow> bool" where     \<comment> \<open>\<open>[a-zA-Z]\<close>\<close>
  "cls_alpha c = (cls_lower c \<or> cls_upper c)"

definition cls_local :: "char \<Rightarrow> bool" where     \<comment> \<open>\<open>[a-zA-Z0-9._%+-]\<close>\<close>
  "cls_local c = (cls_lower c \<or> cls_upper c \<or> cls_digit c \<or> c \<in> set ''._%+-'')"

definition cls_domain :: "char \<Rightarrow> bool" where    \<comment> \<open>\<open>[a-zA-Z0-9.-]\<close>\<close>
  "cls_domain c = (cls_lower c \<or> cls_upper c \<or> cls_digit c \<or> c \<in> set ''.-'')"

definition email_regex :: regex where
  "email_regex =
     Seq (Plus (Cls cls_local))
      (Seq (Cls (\<lambda>c. c = CHR ''@''))
        (Seq (Plus (Cls cls_domain))
          (Seq (Cls (\<lambda>c. c = CHR ''.''))
            (Seq (Cls cls_alpha) (Seq (Cls cls_alpha) (Star (Cls cls_alpha)))))))"

definition re_match_anchored :: "regex \<Rightarrow> string \<Rightarrow> bool" where
  "re_match_anchored r s =
     (matches r s \<or> (s \<noteq> [] \<and> last s = CHR 0x0A \<and> matches r (butlast s)))"

section \<open>The account store (models.py)\<close>

text \<open>
  One row of the user table. \<open>role\<close> and \<open>status\<close> are character fields, as in the model
  (\<open>'admin'\<close>/\<open>'user'\<close>, \<open>'active'\<close>/\<open>'inactive'\<close>); \<open>password\<close> holds the hash; times are
  clock readings. The table is the list of its rows in insertion order.
\<close>

record user =
  user_id :: nat
  email :: string
  full_name :: string
  password :: string
  role :: string
  status :: string
  created_at :: nat
  updated_at :: nat
  last_login :: "nat option"
  is_staff :: bool
  is_active :: bool
  is_superuser :: bool

type_synonym store = "user list"

text \<open>JSON values: the bodies of responses, as the dictionaries the views build.\<close>

datatype json =
    JNull
  | JBool bool
  | JNum nat
  | JStr string
  | JList "json list"
  | JObj "(string \<times> json) list"

datatype exc =
    ValidationError json
  | AuthenticationFailed string
  | NotAuthenticated
  | PermissionDenied string
  | NotFound string
  | MethodNotAllowed string
  | Http404
  | NameError string
  | AttributeError string
  | ValueError string
  | IntegrityError

text \<open>
  Modelled from the spec: the settings module, which configures pagination, is not among
  the sources; the list endpoint's success shape is \<open>{count, next, previous, users[]}\<close>.
  The paginator reads the query parameters and the number of results, and answers with
  the window of results to show and the two links, or refuses the page.
\<close>

record page =
  page_next :: json
  page_previous :: json
  page_offset :: nat
  page_limit :: nat

text \<open>
  What the code takes from outside the repository: the password hasher and the generic
  password policy of the web framework, its e-mail format validator, the encoding of a
  signed token (its type, the account's id, the time of issue), and the paginator.
\<close>

record framework =
  make_password :: "string \<Rightarrow> string"
  check_password :: "string \<Rightarrow> string \<Rightarrow> bool"
  validate_password :: "string \<Rightarrow> string list"
  EmailValidator :: "string \<Rightarrow> bool"
  jwt_encode :: "string \<Rightarrow> nat \<Rightarrow> nat \<Rightarrow> string"
  paginate :: "(string \<rightharpoonup> string) \<Rightarrow> nat \<Rightarrow> exc + page"

subsection \<open>Queries\<close>

definition objects_get :: "store \<Rightarrow> nat \<Rightarrow> user option" where   \<comment> \<open>lookup by \<open>id\<close>\<close>
  "objects_get db i = find (\<lambda>r. user_id r = i) db"

definition get_by_natural_key :: "store \<Rightarrow> string \<Rightarrow> user option" where  \<comment> \<open>by \<open>USERNAME_FIELD\<close>\<close>
  "get_by_natural_key db e = find (\<lambda>r. email r = e) db"

definition get_object_or_404 :: "store \<Rightarrow> nat \<Rightarrow> exc + user" where
  "get_object_or_404 db i = (case objects_get db i of None \<Rightarrow> Inl Http404 | Some u \<Rightarrow> Inr u)"

definition email_exists :: "store \<Rightarrow> string \<Rightarrow> bool" where
  \<comment> \<open>\<open>User.objects.filter(email=e).exists()\<close>\<close>
  "email_exists db e = list_ex (\<lambda>r. email r = e) db"

definition email_exists_excluding :: "store \<Rightarrow> string \<Rightarrow> nat \<Rightarrow> bool" where
  \<comment> \<open>\<open>User.objects.filter(email=e).exclude(id=i).exists()\<close>\<close>
  "email_exists_excluding db e i = list_ex (\<lambda>r. email r = e \<and> user_id r \<noteq> i) db"

subsection \<open>Writes\<close>

text \<open>
  \<open>save(update_fields=...)\<close> writes the named columns of the row with the instance's id;
  \<open>updated_at\<close> (\<open>auto_now\<close>) takes the current time whenever it is among the columns
  written, and on every full \<open>save()\<close>. The unique index on \<open>email\<close> refuses a row whose
  e-mail another row already holds.
\<close>

definition update_row :: "store \<Rightarrow> nat \<Rightarrow> (user \<Rightarrow> user) \<Rightarrow> store" where
  "update_row db i f = map (\<lambda>r. if user_id r = i then f r else r) db"

definition activate :: "nat \<Rightarrow> store \<Rightarrow> user \<Rightarrow> user \<times> store" where
  "activate now db u =
     (u\<lparr>status := ''active'', updated_at := now\<rparr>,
      update_row db (user_id u) (\<lambda>r. r\<lparr>status := ''active'', updated_at := now\<rparr>))"

definition deactivate :: "nat \<Rightarrow> store \<Rightarrow> user \<Rightarrow> user \<times> store" where
  "deactivate now db u =
     (u\<lparr>status := ''inactive'', updated_at := now\<rparr>,
      update_row db (user_id u) (\<lambda>r. r\<lparr>status := ''inactive'', updated_at := now\<rparr>))"

definition update_last_login :: "nat \<Rightarrow> store \<Rightarrow> user \<Rightarrow> user \<times> store" where
  "update_last_login now db u =
     (u\<lparr>last_login := Some now\<rparr>,
      update_row db (user_id u) (\<lambda>r. r\<lparr>last_login := Some now\<rparr>))"

definition save :: "nat \<Rightarrow> store \<Rightarrow> user \<Rightarrow> exc + user \<times> store" where
  "save now db u =
     (if email_exists_excluding db (email u) (user_id u) then Inl IntegrityError
      else Inr (u\<lparr>updated_at := now\<rparr>,
                update_row db (user_id u) (\<lambda>r. u\<lparr>updated_at := now\<rparr>)))"

definition next_id :: "store \<Rightarrow> nat" where
  "next_id db = Suc (fold max (map user_id db) 0)"

definition insert_row :: "nat \<Rightarrow> store \<Rightarrow> user \<Rightarrow> exc + user \<times> store" where
  "insert_row now db u =
     (if email_exists db (email u) then Inl IntegrityError
      else (let u' = u\<lparr>user_id := next_id db, created_at := now, updated_at := now\<rparr>
            in Inr (u', db @ [u'])))"

subsection \<open>UserManager\<close>

definition rsplit_at :: "string \<Rightarrow> (string \<times> string) option" where
  \<comment> \<open>\<open>s.rsplit('@', 1)\<close>: the parts before and after the last \<open>@\<close>, if there is one\<close>
  "rsplit_at s =
     (if CHR ''@'' \<in> set s
      then Some (rev (tl (dropWhile (\<lambda>c. c \<noteq> CHR ''@'') (rev s))),
                 rev (takeWhile (\<lambda>c. c \<noteq> CHR ''@'') (rev s)))
      else None)"

definition normalize_email :: "string \<Rightarrow> string" where
  "normalize_email e =
     (case rsplit_at (strip e) of
        None \<Rightarrow> e
      | Some (email_name, domain_part) \<Rightarrow> email_name @ ''@'' @ lower domain_part)"

definition new_user :: user where   \<comment> \<open>the field defaults of the model\<close>
  "new_user = \<lparr>user_id = 0, email = [], full_name = [], password = [], role = ''user'',
     status = ''active'', created_at = 0, updated_at = 0, last_login = None,
     is_staff = False, is_active = True, is_superuser = False\<rparr>"

definition create_user ::
    "framework \<Rightarrow> nat \<Rightarrow> store \<Rightarrow> string \<Rightarrow> string \<Rightarrow> user \<Rightarrow> exc + user \<times> store" where
  \<comment> \<open>\<open>extra\<close> carries \<open>**extra_fields\<close> over the model defaults\<close>
  "create_user fw now db e pw extra =
     (if e = [] then Inl (ValueError ''The Email field must be set'')
      else insert_row now db
             (extra\<lparr>email := normalize_email e, password := make_password fw pw\<rparr>))"

text \<open>
  \<open>create_superuser\<close> as the management command and the tests call it, with the e-mail,
  the password and \<open>full_name\<close>: the flags and the role then take the values that
  \<open>setdefault\<close> gives them, and the \<open>ValueError\<close> for a flag that is not true cannot
  arise.
\<close>

definition create_superuser ::
    "framework \<Rightarrow> nat \<Rightarrow> store \<Rightarrow> string \<Rightarrow> string \<Rightarrow> string \<Rightarrow> exc + user \<times> store" where
  "create_superuser fw now db e pw name =
     create_user fw now db e pw
       (new_user\<lparr>full_name := name, is_staff := True, is_superuser := True,
                 role := ''admin'', status := ''active''\<rparr>)"

section \<open>Serializers (serializers.py)\<close>

subsection \<open>The projection of an account\<close>

definition UserSerializer_data :: "user \<Rightarrow> json" where
  "UserSerializer_data u = JObj
     [(''id'', JNum (user_id u)),
      (''email'', JStr (email u)),
      (''full_name'', JStr (full_name u)),
      (''role'', JStr (role u)),
      (''status'', JStr (status u)),
      (''created_at'', JNum (created_at u)),
      (''updated_at'', JNum (updated_at u)),
      (''last_login'', (case last_login u of None \<Rightarrow> JNull | Some t \<Rightarrow> JNum t))]"

subsection \<open>Fields of the framework\<close>

text \<open>
  A character field of the serializer framework: a missing key is an error, the text is
  stripped of surrounding whitespace, an empty text is an error, and then all validators
  of the field run and their messages are collected. The validators are those the
  declarations in serializers.py and models.py give rise to: \<open>min_length\<close>,
  \<open>max_length\<close>, the unique index on \<open>email\<close>, the framework's e-mail format, and the
  refusal of null characters that every character field has.
\<close>

definition MinLengthValidator :: "nat \<Rightarrow> string \<Rightarrow> string list" where
  "MinLengthValidator n v =
     (if length v < n then [''Ensure this field has at least {min_length} characters.''] else [])"

definition MaxLengthValidator :: "nat \<Rightarrow> string \<Rightarrow> string list" where
  "MaxLengthValidator n v =
     (if n < length v then [''Ensure this field has no more than {max_length} characters.'']
      else [])"

definition ProhibitNullCharactersValidator :: "string \<Rightarrow> string list" where
  "ProhibitNullCharactersValidator v =
     (if CHR 0x00 \<in> set v then [''Null characters are not allowed.''] else [])"

definition email_format :: "framework \<Rightarrow> string \<Rightarrow> string list" where
  "email_format fw v = (if EmailValidator fw v then [] else [''Enter a valid email address.''])"

definition UniqueValidator :: "store \<Rightarrow> nat option \<Rightarrow> string \<Rightarrow> string list" where
  \<comment> \<open>on an update the instance's own row is left out\<close>
  "UniqueValidator db instance v =
     (if list_ex (\<lambda>r. email r = v \<and> Some (user_id r) \<noteq> instance) db
      then [''A user with this email already exists.''] else [])"

definition run_validators :: "(string \<Rightarrow> string list) list \<Rightarrow> string \<Rightarrow> string list" where
  "run_validators validators v = concat (map (\<lambda>validator. validator v) validators)"

definition CharField :: "(string \<Rightarrow> string list) list \<Rightarrow> string option \<Rightarrow> string list + string" where
  "CharField validators primitive =
     (case primitive of
        None \<Rightarrow> Inl [''This field is required.'']
      | Some s \<Rightarrow>
          if strip s = [] then Inl [''This field may not be blank.'']
          else (case run_validators validators (strip s) of
                  [] \<Rightarrow> Inr (strip s)
                | m # ms \<Rightarrow> Inl (m # ms)))"

definition then_validate ::
    "string list + string \<Rightarrow> (string \<Rightarrow> string list + string) \<Rightarrow> string list + string" where
  \<comment> \<open>the \<open>validate_<field>\<close> method runs on the value the field accepted\<close>
  "then_validate r validate_method = (case r of Inl m \<Rightarrow> Inl m | Inr v \<Rightarrow> validate_method v)"

definition field_errors :: "string \<Rightarrow> string list + 'a \<Rightarrow> (string \<times> string list) list" where
  "field_errors name r = (case r of Inl m \<Rightarrow> [(name, m)] | Inr v \<Rightarrow> [])"

definition errors_json :: "(string \<times> string list) list \<Rightarrow> json" where
  "errors_json errs = JObj (map (\<lambda>(name, ms). (name, JList (map JStr ms))) errs)"

subsection \<open>UserSignupSerializer\<close>

definition UserSignupSerializer_validate_email :: "store \<Rightarrow> string \<Rightarrow> string list + string" where
  "UserSignupSerializer_validate_email db v =
     (if \<not> re_match_anchored email_regex v then Inl [''Please enter a valid email address.'']
      else if email_exists db (lower v) then Inl [''A user with this email already exists.'']
      else Inr (lower v))"

definition UserSignupSerializer_validate_full_name :: "string \<Rightarrow> string list + string" where
  "UserSignupSerializer_validate_full_name v =
     (if v = [] \<or> length (strip v) < 2
      then Inl [''Full name must be at least 2 characters long.'']
      else Inr (strip v))"

definition UserSignupSerializer_validate ::
    "string \<times> string \<times> string \<times> string
      \<Rightarrow> (string \<times> string list) list + string \<times> string \<times> string \<times> string" where
  "UserSignupSerializer_validate attrs =
     (case attrs of (e, n, pw, confirm) \<Rightarrow>
        if pw \<noteq> confirm then Inl [(''confirm_password'', [''Passwords do not match.''])]
        else Inr attrs)"

definition UserSignupSerializer_is_valid ::
    "framework \<Rightarrow> store \<Rightarrow> (string \<rightharpoonup> string)
      \<Rightarrow> (string \<times> string list) list + string \<times> string \<times> string \<times> string" where
  "UserSignupSerializer_is_valid fw db data =
     (let r_email = then_validate
            (CharField [UniqueValidator db None, MaxLengthValidator 255,
                        ProhibitNullCharactersValidator, email_format fw] (data ''email''))
            (UserSignupSerializer_validate_email db);
          r_full_name = then_validate
            (CharField [MaxLengthValidator 255, ProhibitNullCharactersValidator]
               (data ''full_name''))
            UserSignupSerializer_validate_full_name;
          r_password = then_validate
            (CharField [MinLengthValidator 8, ProhibitNullCharactersValidator]
               (data ''password''))
            (UserSignupSerializer_validate_password (validate_password fw));
          r_confirm = CharField [ProhibitNullCharactersValidator] (data ''confirm_password'')
      in case (r_email, r_full_name, r_password, r_confirm) of
           (Inr e, Inr n, Inr pw, Inr confirm) \<Rightarrow> UserSignupSerializer_validate (e, n, pw, confirm)
         | _ \<Rightarrow> Inl (field_errors ''email'' r_email @ field_errors ''full_name'' r_full_name
                    @ field_errors ''password'' r_password
                    @ field_errors ''confirm_password'' r_confirm))"

definition UserSignupSerializer_create ::
    "framework \<Rightarrow> nat \<Rightarrow> store \<Rightarrow> string \<times> string \<times> string \<times> string \<Rightarrow> exc + user \<times> store" where
  "UserSignupSerializer_create fw now db validated_data =
     (case validated_data of (e, n, pw, confirm) \<Rightarrow>
        create_user fw now db e pw (new_user\<lparr>full_name := n\<rparr>))"

subsection \<open>UserLoginSerializer\<close>

definition authenticate :: "framework \<Rightarrow> store \<Rightarrow> string \<Rightarrow> string \<Rightarrow> user option" where
  \<comment> \<open>the framework's model backend: the account with this e-mail, if the password
      verifies against its hash and the account's \<open>is_active\<close> flag is set\<close>
  "authenticate fw db e pw =
     (case get_by_natural_key db e of
        None \<Rightarrow> None
      | Some u \<Rightarrow> if check_password fw pw (password u) \<and> is_active u then Some u else None)"

definition UserLoginSerializer_validate_email :: "string \<Rightarrow> string list + string" where
  "UserLoginSerializer_validate_email v = Inr (lower v)"

definition UserLoginSerializer_validate ::
    "framework \<Rightarrow> store \<Rightarrow> string \<times> string \<Rightarrow> (string \<times> string list) list + user" where
  "UserLoginSerializer_validate fw db attrs =
     (case attrs of (e, pw) \<Rightarrow>
        if e \<noteq> [] \<and> pw \<noteq> [] then
          (case authenticate fw db e pw of
             None \<Rightarrow> Inl [(''detail'', [''Invalid email or password.''])]
           | Some u \<Rightarrow>
               if status u = ''inactive''
               then Inl [(''detail'',
                  [''Your account has been deactivated. Please contact an administrator.''])]
               else Inr u)
        else Inl [(''detail'', [''Both email and password are required.''])])"

definition UserLoginSerializer_is_valid ::
    "framework \<Rightarrow> store \<Rightarrow> (string \<rightharpoonup> string) \<Rightarrow> (string \<times> string list) list + user" where
  "UserLoginSerializer_is_valid fw db data =
     (let r_email = then_validate
            (CharField [ProhibitNullCharactersValidator, email_format fw] (data ''email''))
            UserLoginSerializer_validate_email;
          r_password = CharField [ProhibitNullCharactersValidator] (data ''password'')
      in case (r_email, r_password) of
           (Inr e, Inr pw) \<Rightarrow> UserLoginSerializer_validate fw db (e, pw)
         | _ \<Rightarrow> Inl (field_errors ''email'' r_email @ field_errors ''password'' r_password))"

subsection \<open>UserUpdateSerializer\<close>

definition UserUpdateSerializer_validate_email ::
    "store \<Rightarrow> user \<Rightarrow> string \<Rightarrow> string list + string" where
  "UserUpdateSerializer_validate_email db u v =
     (if \<not> re_match_anchored email_regex v then Inl [''Please enter a valid email address.'']
      else if email_exists_excluding db (lower v) (user_id u)
        then Inl [''A user with this email already exists.'']
      else Inr (lower v))"

definition UserUpdateSerializer_validate_full_name :: "string \<Rightarrow> string list + string" where
  "UserUpdateSerializer_validate_full_name v =
     (if v = [] \<or> length (strip v) < 2
      then Inl [''Full name must be at least 2 characters long.'']
      else Inr (strip v))"

definition partial_field ::
    "string option \<Rightarrow> (string option \<Rightarrow> string list + string) \<Rightarrow> string list + string option" where
  \<comment> \<open>\<open>partial=True\<close>: a key that is absent is skipped\<close>
  "partial_field primitive field =
     (case primitive of
        None \<Rightarrow> Inr None
      | Some s \<Rightarrow> (case field (Some s) of Inl m \<Rightarrow> Inl m | Inr v \<Rightarrow> Inr (Some v)))"

definition UserUpdateSerializer_is_valid ::
    "framework \<Rightarrow> store \<Rightarrow> user \<Rightarrow> (string \<rightharpoonup> string)
      \<Rightarrow> (string \<times> string list) list + string option \<times> string option" where
  "UserUpdateSerializer_is_valid fw db u data =
     (let r_email = partial_field (data ''email'') (\<lambda>d. then_validate
            (CharField [UniqueValidator db (Some (user_id u)), MaxLengthValidator 255,
                        ProhibitNullCharactersValidator, email_format fw] d)
            (UserUpdateSerializer_validate_email db u));
          r_full_name = partial_field (data ''full_name'') (\<lambda>d. then_validate
            (CharField [MaxLengthValidator 255, ProhibitNullCharactersValidator] d)
            UserUpdateSerializer_validate_full_name)
      in case (r_email, r_full_name) of
           (Inr e, Inr n) \<Rightarrow> Inr (e, n)
         | _ \<Rightarrow> Inl (field_errors ''email'' r_email @ field_errors ''full_name'' r_full_name))"

definition UserUpdateSerializer_update ::
    "nat \<Rightarrow> store \<Rightarrow> user \<Rightarrow> string option \<times> string option \<Rightarrow> exc + user \<times> store" where
  "UserUpdateSerializer_update now db u validated_data =
     (case validated_data of (e, n) \<Rightarrow>
        save now db
          (u\<lparr>email := (case e of None \<Rightarrow> email u | Some v \<Rightarrow> v),
             full_name := (case n of None \<Rightarrow> full_name u | Some v \<Rightarrow> v)\<rparr>))"

subsection \<open>ChangePasswordSerializer\<close>

definition ChangePasswordSerializer_validate_current_password ::
    "framework \<Rightarrow> user \<Rightarrow> string \<Rightarrow> string list + string" where
  "ChangePasswordSerializer_validate_current_password fw u v =
     (if \<not> check_password fw v (password u) then Inl [''Current password is incorrect.'']
      else Inr v)"

definition ChangePasswordSerializer_validate ::
    "string \<times> string \<times> string \<Rightarrow> (string \<times> string list) list + string \<times> string \<times> string" where
  "ChangePasswordSerializer_validate attrs =
     (case attrs of (current, new, confirm) \<Rightarrow>
        if new \<noteq> confirm
          then Inl [(''confirm_new_password'', [''New passwords do not match.''])]
        else if current = new
          then Inl [(''new_password'',
                 [''New password must be different from current password.''])]
        else Inr attrs)"

definition ChangePasswordSerializer_is_valid ::
    "framework \<Rightarrow> user \<Rightarrow> (string \<rightharpoonup> string)
      \<Rightarrow> (string \<times> string list) list + string \<times> string \<times> string" where
  "ChangePasswordSerializer_is_valid fw u data =
     (let r_current = then_validate
            (CharField [ProhibitNullCharactersValidator] (data ''current_password''))
            (ChangePasswordSerializer_validate_current_password fw u);
          r_new = then_validate
            (CharField [MinLengthValidator 8, ProhibitNullCharactersValidator]
               (data ''new_password''))
            (ChangePasswordSerializer_validate_new_password (validate_password fw));
          r_confirm = CharField [ProhibitNullCharactersValidator] (data ''confirm_new_password'')
      in case (r_current, r_new, r_confirm) of
           (Inr current, Inr new, Inr confirm) \<Rightarrow>
             ChangePasswordSerializer_validate (current, new, confirm)
         | _ \<Rightarrow> Inl (field_errors ''current_password'' r_current
                    @ field_errors ''new_password'' r_new
                    @ field_errors ''confirm_new_password'' r_confirm))"

section \<open>Permissions (permissions.py)\<close>

text \<open>
  \<open>request.user\<close> is \<open>None\<close> for the anonymous user, whose \<open>is_authenticated\<close> is false,
  and the account otherwise.
\<close>

datatype permission = AllowAny | IsAuthenticated | IsAdmin | IsActiveUser

fun has_permission :: "permission \<Rightarrow> user option \<Rightarrow> bool" where
  "has_permission AllowAny request_user = True"
| "has_permission IsAuthenticated request_user = (request_user \<noteq> None)"
| "has_permission IsAdmin request_user =
     (case request_user of None \<Rightarrow> False | Some u \<Rightarrow> role u = ''admin'')"
| "has_permission IsActiveUser request_user =
     (case request_user of None \<Rightarrow> False | Some u \<Rightarrow> status u = ''active'')"

fun message :: "permission \<Rightarrow> string" where
  "message IsAdmin = ''You must be an admin to perform this action.''"
| "message IsActiveUser = ''Your account is inactive. Please contact an administrator.''"
| "message p = ''You do not have permission to perform this action.''"

section \<open>Responses and the exception handler (exceptions.py)\<close>

record response =
  body :: json
  status_code :: nat

definition Response :: "json \<Rightarrow> nat \<Rightarrow> response" where
  "Response b s = \<lparr>body = b, status_code = s\<rparr>"

definition exception_handler :: "exc \<Rightarrow> response option" where
  \<comment> \<open>the framework's handler: a response for its own exceptions and for \<open>Http404\<close>,
      nothing for any other exception\<close>
  "exception_handler e =
     (case e of
        ValidationError d \<Rightarrow> Some (Response d 400)
      | AuthenticationFailed d \<Rightarrow> Some (Response (JObj [(''detail'', JStr d)]) 401)
      | NotAuthenticated \<Rightarrow>
          Some (Response
            (JObj [(''detail'', JStr ''Authentication credentials were not provided.'')]) 401)
      | PermissionDenied d \<Rightarrow> Some (Response (JObj [(''detail'', JStr d)]) 403)
      | NotFound d \<Rightarrow> Some (Response (JObj [(''detail'', JStr d)]) 404)
      | MethodNotAllowed d \<Rightarrow> Some (Response (JObj [(''detail'', JStr d)]) 405)
      | Http404 \<Rightarrow> Some (Response (JObj [(''detail'', JStr ''Not found.'')]) 404)
      | _ \<Rightarrow> None)"

definition custom_response_data :: "string \<Rightarrow> json \<Rightarrow> json" where
  "custom_response_data msg errs =
     JObj [(''success'', JBool False), (''message'', JStr msg), (''errors'', errs)]"

definition custom_exception_handler :: "exc \<Rightarrow> response option" where
  "custom_exception_handler e =
     (case exception_handler e of
        None \<Rightarrow> None
      | Some r \<Rightarrow>
          Some (case e of
              ValidationError d \<Rightarrow>
                Response (custom_response_data ''Validation error'' (body r)) (status_code r)
            | AuthenticationFailed d \<Rightarrow> Response (custom_response_data d JNull) 401
            | NotAuthenticated \<Rightarrow>
                Response (custom_response_data
                  ''Authentication credentials were not provided.'' JNull) 401
            | PermissionDenied d \<Rightarrow> Response (custom_response_data d JNull) 403
            | Http404 \<Rightarrow> Response (custom_response_data ''Resource not found.'' JNull) 404
            | NotFound d \<Rightarrow> Response (custom_response_data d JNull) (status_code r)
            | MethodNotAllowed d \<Rightarrow> Response (custom_response_data d JNull) (status_code r)
            | _ \<Rightarrow> Response (custom_response_data ''An error occurred'' JNull) (status_code r)))"

section \<open>Views (views.py)\<close>

definition get_tokens_for_user :: "framework \<Rightarrow> nat \<Rightarrow> user \<Rightarrow> json" where
  "get_tokens_for_user fw now u =
     JObj [(''refresh'', JStr (jwt_encode fw ''refresh'' (user_id u) now)),
           (''access'', JStr (jwt_encode fw ''access'' (user_id u) now))]"

definition validation_error_response :: "(string \<times> string list) list \<Rightarrow> response" where
  "validation_error_response errs =
     Response (JObj [(''success'', JBool False), (''message'', JStr ''Validation error''),
                     (''errors'', errors_json errs)]) 400"

definition SignupView_post ::
    "framework \<Rightarrow> nat \<Rightarrow> store \<Rightarrow> (string \<rightharpoonup> string) \<Rightarrow> exc + response \<times> store" where
  "SignupView_post fw now db data =
     (case UserSignupSerializer_is_valid fw db data of
        Inr validated_data \<Rightarrow>
          (case UserSignupSerializer_create fw now db validated_data of
             Inl e \<Rightarrow> Inl e
           | Inr (u, db') \<Rightarrow>
               Inr (Response (JObj [(''success'', JBool True),
                      (''message'', JStr ''User registered successfully.''),
                      (''data'', JObj [(''user'', UserSerializer_data u),
                                       (''tokens'', get_tokens_for_user fw now u)])]) 201,
                    db'))
      | Inl errs \<Rightarrow> Inr (validation_error_response errs, db))"

definition LoginView_post ::
    "framework \<Rightarrow> nat \<Rightarrow> store \<Rightarrow> (string \<rightharpoonup> string) \<Rightarrow> exc + response \<times> store" where
  "LoginView_post fw now db data =
     (case UserLoginSerializer_is_valid fw db data of
        Inr u \<Rightarrow>
          (case update_last_login now db u of (u', db') \<Rightarrow>
             Inr (Response (JObj [(''success'', JBool True),
                    (''message'', JStr ''Login successful.''),
                    (''data'', JObj [(''user'', UserSerializer_data u'),
                                     (''tokens'', get_tokens_for_user fw now u')])]) 200,
                  db'))
      | Inl errs \<Rightarrow> Inr (validation_error_response errs, db))"

definition CurrentUserView_get :: "user \<Rightarrow> response" where
  "CurrentUserView_get u =
     Response (JObj [(''success'', JBool True),
        (''message'', JStr ''User data retrieved successfully.''),
        (''data'', JObj [(''user'', UserSerializer_data u)])]) 200"

definition UserProfileView_get :: "user \<Rightarrow> response" where
  "UserProfileView_get u =
     Response (JObj [(''success'', JBool True),
        (''message'', JStr ''Profile retrieved successfully.''),
        (''data'', JObj [(''user'', UserSerializer_data u)])]) 200"

definition UserProfileView_put ::
    "framework \<Rightarrow> nat \<Rightarrow> store \<Rightarrow> user \<Rightarrow> (string \<rightharpoonup> string) \<Rightarrow> exc + response \<times> store" where
  "UserProfileView_put fw now db u data =
     (case UserUpdateSerializer_is_valid fw db u data of
        Inr validated_data \<Rightarrow>
          (case UserUpdateSerializer_update now db u validated_data of
             Inl e \<Rightarrow> Inl e
           | Inr (u', db') \<Rightarrow>
               Inr (Response (JObj [(''success'', JBool True),
                      (''message'', JStr ''Profile updated successfully.''),
                      (''data'', JObj [(''user'', UserSerializer_data u')])]) 200,
                    db'))
      | Inl errs \<Rightarrow> Inr (validation_error_response errs, db))"

definition ChangePasswordView_post ::
    "framework \<Rightarrow> nat \<Rightarrow> store \<Rightarrow> user \<Rightarrow> (string \<rightharpoonup> string) \<Rightarrow> exc + response \<times> store" where
  "ChangePasswordView_post fw now db u data =
     (case ChangePasswordSerializer_is_valid fw u data of
        Inr (current, new, confirm) \<Rightarrow>
          (case save now db (u\<lparr>password := make_password fw new\<rparr>) of
             Inl e \<Rightarrow> Inl e
           | Inr (u', db') \<Rightarrow>
               Inr (Response (JObj [(''success'', JBool True),
                      (''message'', JStr ''Password changed successfully.'')]) 200,
                    db'))
      | Inl errs \<Rightarrow> Inr (validation_error_response errs, db))"

text \<open>
  \<open>AdminUserListView.get_queryset\<close>. views.py imports \<open>User\<close> from the models module and
  nothing named \<open>models\<close>, so evaluating \<open>models.Q\<close> in the search branch raises
  \<open>NameError\<close> before any filter is built.
\<close>

definition order_by_created_at_desc :: "store \<Rightarrow> user list" where
  "order_by_created_at_desc db = rev (sort_key created_at db)"

definition get_queryset :: "store \<Rightarrow> (string \<rightharpoonup> string) \<Rightarrow> exc + user list" where
  "get_queryset db query_params =
     (let queryset = order_by_created_at_desc db;
          status_filter = query_params ''status'';
          queryset = (if status_filter \<in> {Some ''active'', Some ''inactive''}
                      then filter (\<lambda>r. Some (status r) = status_filter) queryset
                      else queryset);
          role_filter = query_params ''role'';
          queryset = (if role_filter \<in> {Some ''admin'', Some ''user''}
                      then filter (\<lambda>r. Some (role r) = role_filter) queryset
                      else queryset);
          search = query_params ''search''
      in if search \<noteq> None \<and> search \<noteq> Some []
         then Inl (NameError ''name 'models' is not defined'')
         else Inr queryset)"

definition AdminUserListView_list ::
    "framework \<Rightarrow> store \<Rightarrow> (string \<rightharpoonup> string) \<Rightarrow> exc + response" where
  "AdminUserListView_list fw db query_params =
     (case get_queryset db query_params of
        Inl e \<Rightarrow> Inl e
      | Inr queryset \<Rightarrow>
          (case paginate fw query_params (length queryset) of
             Inl e \<Rightarrow> Inl e
           | Inr pg \<Rightarrow>
               Inr (Response (JObj [(''success'', JBool True),
                      (''message'', JStr ''Users retrieved successfully.''),
                      (''data'', JObj [(''count'', JNum (length queryset)),
                         (''next'', page_next pg),
                         (''previous'', page_previous pg),
                         (''users'', JList (map UserSerializer_data
                             (take (page_limit pg) (drop (page_offset pg) queryset))))])])
                    200)))"

definition AdminUserDetailView_get :: "store \<Rightarrow> nat \<Rightarrow> exc + response" where
  "AdminUserDetailView_get db i =
     (case get_object_or_404 db i of
        Inl e \<Rightarrow> Inl e
      | Inr u \<Rightarrow>
          Inr (Response (JObj [(''success'', JBool True),
                 (''message'', JStr ''User retrieved successfully.''),
                 (''data'', JObj [(''user'', UserSerializer_data u)])]) 200))"

definition AdminActivateUserView_post ::
    "nat \<Rightarrow> store \<Rightarrow> nat \<Rightarrow> exc + response \<times> store" where
  "AdminActivateUserView_post now db i =
     (case get_object_or_404 db i of
        Inl e \<Rightarrow> Inl e
      | Inr u \<Rightarrow>
          if status u = ''active''
          then Inr (Response (JObj [(''success'', JBool False),
                      (''message'', JStr ''User is already active.'')]) 400, db)
          else (case activate now db u of (u', db') \<Rightarrow>
            Inr (Response (JObj [(''success'', JBool True),
                   (''message'', JStr (''User '' @ email u' @ '' has been activated successfully.'')),
                   (''data'', JObj [(''user'', UserSerializer_data u')])]) 200,
                 db')))"

definition AdminDeactivateUserView_post ::
    "nat \<Rightarrow> store \<Rightarrow> user \<Rightarrow> nat \<Rightarrow> exc + response \<times> store" where
  "AdminDeactivateUserView_post now db request_user i =
     (case get_object_or_404 db i of
        Inl e \<Rightarrow> Inl e
      | Inr u \<Rightarrow>
          if user_id u = user_id request_user
          then Inr (Response (JObj [(''success'', JBool False),
                      (''message'', JStr ''You cannot deactivate your own account.'')]) 400, db)
          else if status u = ''inactive''
          then Inr (Response (JObj [(''success'', JBool False),
                      (''message'', JStr ''User is already inactive.'')]) 400, db)
          else (case deactivate now db u of (u', db') \<Rightarrow>
            Inr (Response (JObj [(''success'', JBool True),
                   (''message'', JStr (''User '' @ email u' @ '' has been deactivated successfully.'')),
                   (''data'', JObj [(''user'', UserSerializer_data u')])]) 200,
                 db')))"

section \<open>Routing and dispatch (urls.py, and the framework's view dispatch)\<close>

text \<open>
  The views of urls.py that read or write accounts; logout and token refresh only handle
  tokens and are left out.
\<close>

datatype view =
    SignupView
  | LoginView
  | CurrentUserView
  | UserProfileView
  | ChangePasswordView
  | AdminUserListView
  | AdminUserDetailView
  | AdminActivateUserView
  | AdminDeactivateUserView

fun permission_classes :: "view \<Rightarrow> permission list" where
  "permission_classes SignupView = [AllowAny]"
| "permission_classes LoginView = [AllowAny]"
| "permission_classes CurrentUserView = [IsAuthenticated, IsActiveUser]"
| "permission_classes UserProfileView = [IsAuthenticated, IsActiveUser]"
| "permission_classes ChangePasswordView = [IsAuthenticated, IsActiveUser]"
| "permission_classes AdminUserListView = [IsAuthenticated, IsAdmin]"
| "permission_classes AdminUserDetailView = [IsAuthenticated, IsAdmin]"
| "permission_classes AdminActivateUserView = [IsAuthenticated, IsAdmin]"
| "permission_classes AdminDeactivateUserView = [IsAuthenticated, IsAdmin]"

text \<open>
  A request is a method on a path of urls.py with its body or query parameters;
  \<open>OTHER_METHOD\<close> is any method the view of the path has no handler for.
\<close>

datatype request =
    POST_auth_signup "string \<rightharpoonup> string"
  | POST_auth_login "string \<rightharpoonup> string"
  | GET_auth_me
  | GET_users_profile
  | PUT_users_profile "string \<rightharpoonup> string"
  | POST_users_change_password "string \<rightharpoonup> string"
  | GET_admin_users "string \<rightharpoonup> string"
  | GET_admin_users_id nat
  | POST_admin_users_id_activate nat
  | POST_admin_users_id_deactivate nat
  | OTHER_METHOD view

fun resolve :: "request \<Rightarrow> view" where
  "resolve (POST_auth_signup data) = SignupView"
| "resolve (POST_auth_login data) = LoginView"
| "resolve GET_auth_me = CurrentUserView"
| "resolve GET_users_profile = UserProfileView"
| "resolve (PUT_users_profile data) = UserProfileView"
| "resolve (POST_users_change_password data) = ChangePasswordView"
| "resolve (GET_admin_users query_params) = AdminUserListView"
| "resolve (GET_admin_users_id i) = AdminUserDetailView"
| "resolve (POST_admin_users_id_activate i) = AdminActivateUserView"
| "resolve (POST_admin_users_id_deactivate i) = AdminDeactivateUserView"
| "resolve (OTHER_METHOD v) = v"

text \<open>
  Modelled from the spec: the settings module, which names the authentication class, is
  not among the sources. Section 4.4: a request is authenticated when it carries a valid,
  unexpired, non-revoked access token resolving to an existing account. The credentials
  of a request are what the check of its authorization header gives: no header, a token
  that does not verify, or a verified access token with the id it was issued for. As in
  the token library, an account whose \<open>is_active\<close> flag is cleared does not authenticate.
\<close>

datatype credentials = NoCredentials | InvalidToken | AccessToken nat

definition authenticate_credentials :: "store \<Rightarrow> credentials \<Rightarrow> exc + user option" where
  "authenticate_credentials db cred =
     (case cred of
        NoCredentials \<Rightarrow> Inr None
      | InvalidToken \<Rightarrow> Inl (AuthenticationFailed ''Given token not valid for any token type'')
      | AccessToken i \<Rightarrow>
          (case objects_get db i of
             None \<Rightarrow> Inl (AuthenticationFailed ''User not found'')
           | Some u \<Rightarrow>
               if is_active u then Inr (Some u)
               else Inl (AuthenticationFailed ''User is inactive'')))"

text \<open>
  The framework checks the permission classes of the view in order; the first that
  refuses raises \<open>NotAuthenticated\<close> when no account was authenticated and
  \<open>PermissionDenied\<close> with the message of the class otherwise.
\<close>

definition permission_denied :: "user option \<Rightarrow> string \<Rightarrow> exc" where
  "permission_denied request_user msg =
     (if request_user = None then NotAuthenticated else PermissionDenied msg)"

fun check_permissions :: "permission list \<Rightarrow> user option \<Rightarrow> exc option" where
  "check_permissions [] request_user = None"
| "check_permissions (p # ps) request_user =
     (if has_permission p request_user then check_permissions ps request_user
      else Some (permission_denied request_user (message p)))"

definition initial :: "store \<Rightarrow> credentials \<Rightarrow> view \<Rightarrow> exc + user option" where
  "initial db cred v =
     (case authenticate_credentials db cred of
        Inl e \<Rightarrow> Inl e
      | Inr request_user \<Rightarrow>
          (case check_permissions (permission_classes v) request_user of
             Some e \<Rightarrow> Inl e
           | None \<Rightarrow> Inr request_user))"

definition as_user :: "user option \<Rightarrow> exc + user" where
  \<comment> \<open>the anonymous user has none of the attributes of an account\<close>
  "as_user request_user =
     (case request_user of
        None \<Rightarrow> Inl (AttributeError ''AnonymousUser object has no such attribute'')
      | Some u \<Rightarrow> Inr u)"

fun handler ::
    "framework \<Rightarrow> nat \<Rightarrow> store \<Rightarrow> user option \<Rightarrow> request \<Rightarrow> exc + response \<times> store" where
  "handler fw now db request_user (POST_auth_signup data) = SignupView_post fw now db data"
| "handler fw now db request_user (POST_auth_login data) = LoginView_post fw now db data"
| "handler fw now db request_user GET_auth_me =
     (case as_user request_user of Inl e \<Rightarrow> Inl e | Inr u \<Rightarrow> Inr (CurrentUserView_get u, db))"
| "handler fw now db request_user GET_users_profile =
     (case as_user request_user of Inl e \<Rightarrow> Inl e | Inr u \<Rightarrow> Inr (UserProfileView_get u, db))"
| "handler fw now db request_user (PUT_users_profile data) =
     (case as_user request_user of Inl e \<Rightarrow> Inl e
      | Inr u \<Rightarrow> UserProfileView_put fw now db u data)"
| "handler fw now db request_user (POST_users_change_password data) =
     (case as_user request_user of Inl e \<Rightarrow> Inl e
      | Inr u \<Rightarrow> ChangePasswordView_post fw now db u data)"
| "handler fw now db request_user (GET_admin_users query_params) =
     (case AdminUserListView_list fw db query_params of
        Inl e \<Rightarrow> Inl e | Inr r \<Rightarrow> Inr (r, db))"
| "handler fw now db request_user (GET_admin_users_id i) =
     (case AdminUserDetailView_get db i of Inl e \<Rightarrow> Inl e | Inr r \<Rightarrow> Inr (r, db))"
| "handler fw now db request_user (POST_admin_users_id_activate i) =
     AdminActivateUserView_post now db i"
| "handler fw now db request_user (POST_admin_users_id_deactivate i) =
     (case as_user request_user of Inl e \<Rightarrow> Inl e
      | Inr u \<Rightarrow> AdminDeactivateUserView_post now db u i)"
| "handler fw now db request_user (OTHER_METHOD v) =
     Inl (MethodNotAllowed ''Method not allowed.'')"

text \<open>
  Modelled from the spec: the settings module, which installs the exception handler, is
  not among the sources. Section 7: errors are recovered at the request boundary and
  mapped to the uniform envelope, which is what \<open>custom_exception_handler\<close> builds. An
  exception it has no response for propagates out of the view.
\<close>

definition handle_exception :: "exc \<Rightarrow> exc + response" where
  "handle_exception e = (case custom_exception_handler e of None \<Rightarrow> Inl e | Some r \<Rightarrow> Inr r)"

definition dispatch ::
    "framework \<Rightarrow> nat \<Rightarrow> store \<Rightarrow> credentials \<Rightarrow> request \<Rightarrow> (exc + response) \<times> store" where
  "dispatch fw now db cred req =
     (case initial db cred (resolve req) of
        Inl e \<Rightarrow> (handle_exception e, db)
      | Inr request_user \<Rightarrow>
          (case handler fw now db request_user req of
             Inl e \<Rightarrow> (handle_exception e, db)
           | Inr (r, db') \<Rightarrow> (Inr r, db')))"

definition admin_views :: "view list" where   \<comment> \<open>the views behind \<open>admin/...\<close> in urls.py\<close>
  "admin_views =
     [AdminUserListView, AdminUserDetailView, AdminActivateUserView, AdminDeactivateUserView]"

section \<open>Reading responses\<close>



section \<open>The fixture of tests.py\<close>

text \<open>
  A stand-in for the libraries, for evaluating the code on concrete requests: the hasher
  tags the password, the policy and the e-mail format accept, a token is named by its
  type, and the paginator shows all results on one page. The store holds the two accounts
  that \<open>AdminUserManagementTests.setUp\<close> creates: the administrator, then a regular user.
\<close>

definition test_framework :: framework where
  "test_framework =
     \<lparr>make_password = (\<lambda>pw. ''hash$'' @ pw),
      check_password = (\<lambda>pw h. h = ''hash$'' @ pw),
      validate_password = (\<lambda>v. []),
      EmailValidator = (\<lambda>v. True),
      jwt_encode = (\<lambda>token_type i t. token_type),
      paginate = (\<lambda>query_params n.
         Inr \<lparr>page_next = JNull, page_previous = JNull, page_offset = 0, page_limit = n\<rparr>)\<rparr>"

definition admin_user :: user where
  "admin_user =
     \<lparr>user_id = 1, email = ''admin@example.com'', full_name = ''Admin User'',
      password = ''hash$AdminPass123!'', role = ''admin'', status = ''active'',
      created_at = 1, updated_at = 1, last_login = None,
      is_staff = True, is_active = True, is_superuser = True\<rparr>"

definition regular_user :: user where
  "regular_user =
     \<lparr>user_id = 2, email = ''regular@example.com'', full_name = ''Regular User'',
      password = ''hash$RegularPass123!'', role = ''user'', status = ''active'',
      created_at = 2, updated_at = 2, last_login = None,
      is_staff = False, is_active = True, is_superuser = False\<rparr>"

definition setUp :: store where
  "setUp = [admin_user, regular_user]"

section \<open>Verified properties\<close>

subsection \<open>Character classes and searches\<close>








subsection \<open>Password strength\<close>



subsection \<open>Lookups and the fixture\<close>

lemma setUp_built:
  "create_superuser test_framework 1 [] ''admin@example.com'' ''AdminPass123!'' ''Admin User''
     = Inr (admin_user, [admin_user])"
  "create_user test_framework 2 [admin_user] ''regular@example.com'' ''RegularPass123!''
      (new_user\<lparr>full_name := ''Regular User''\<rparr>) = Inr (regular_user, setUp)"
  by (simp_all add: create_superuser_def create_user_def insert_row_def email_exists_def
      normalize_email_def rsplit_at_def strip_def isspace_def code_def lower_def lower_char_def
      new_user_def admin_user_def regular_user_def setUp_def test_framework_def next_id_def Let_def)

lemma objects_get_id: "objects_get db i = Some u \<Longrightarrow> user_id u = i"
  by (auto simp: objects_get_def find_Some_iff)

lemma authenticated_user:
  "authenticate_credentials db cred = Inr (Some u) \<Longrightarrow> objects_get db (user_id u) = Some u"
  by (auto simp: authenticate_credentials_def objects_get_id
      split: credentials.splits option.splits if_splits)

lemma setUp_admin_token:
  "authenticate_credentials setUp (AccessToken 1) = Inr (Some admin_user)"
  by (simp add: authenticate_credentials_def objects_get_def setUp_def admin_user_def)

lemma setUp_user_token:
  "authenticate_credentials setUp (AccessToken 2) = Inr (Some regular_user)"
  by (simp add: authenticate_credentials_def objects_get_def setUp_def admin_user_def
      regular_user_def)

lemma admin_view_permissions:
  "v \<in> set admin_views \<Longrightarrow> permission_classes v = [IsAuthenticated, IsAdmin]"
  by (auto simp: admin_views_def)

subsection \<open>The search filter of the user list\<close>

lemma get_queryset_search_raises:
  "query_params ''search'' = Some s \<Longrightarrow> s \<noteq> [] \<Longrightarrow>
   get_queryset db query_params = Inl (NameError ''name 'models' is not defined'')"
  by (simp add: get_queryset_def Let_def)

text \<open>
  C1. The claim asks for a 200 response listing the accounts whose e-mail or full name
  contains the search text. The code does otherwise: the administrator of the fixture
  searching for \<open>regular\<close> gets no response at all, the \<open>NameError\<close> raised in
  \<open>get_queryset\<close> leaves the view unhandled.
\<close>

theorem C1_search_raises_NameError:
  "dispatch test_framework 5 setUp (AccessToken 1) (GET_admin_users [''search'' \<mapsto> ''regular''])
     = (Inl (NameError ''name 'models' is not defined''), setUp)"
  using setUp_admin_token
  by (simp add: dispatch_def initial_def admin_user_def
      AdminUserListView_list_def get_queryset_def Let_def handle_exception_def
      custom_exception_handler_def exception_handler_def)

subsection \<open>Account lifecycle\<close>

text \<open>
  C3. An administrator who asks to deactivate the account the request is authenticated as
  gets the 400 response "You cannot deactivate your own account.", whatever the status of
  that account, and the store is left as it was (so its status and \<open>updated_at\<close> too).
\<close>

theorem C3_self_deactivation_refused:
  assumes "authenticate_credentials db cred = Inr (Some a)" and "role a = ''admin''"
  shows "dispatch fw now db cred (POST_admin_users_id_deactivate (user_id a)) =
           (Inr (Response (JObj [(''success'', JBool False),
                    (''message'', JStr ''You cannot deactivate your own account.'')]) 400), db)"
  using assms authenticated_user [OF assms(1)]
  by (simp add: dispatch_def initial_def as_user_def AdminDeactivateUserView_post_def
      get_object_or_404_def)

theorem C3_self_deactivation_refused_witness:
  "authenticate_credentials setUp (AccessToken 1) = Inr (Some admin_user)
   \<and> role admin_user = ''admin''
   \<and> dispatch test_framework 5 setUp (AccessToken 1) (POST_admin_users_id_deactivate 1) =
           (Inr (Response (JObj [(''success'', JBool False),
                    (''message'', JStr ''You cannot deactivate your own account.'')]) 400), setUp)"
proof -
  have r: "role admin_user = ''admin''" and i: "user_id admin_user = 1"
    by (simp_all add: admin_user_def)
  show ?thesis
    using C3_self_deactivation_refused [OF setUp_admin_token r, of test_framework 5] r i
      setUp_admin_token by simp
qed

text \<open>
  C6. For a request authenticated as an administrator: activating an account whose status
  is already \<open>active\<close>, and deactivating another account whose status is already
  \<open>inactive\<close>, both answer 400 and leave the store, hence every field of the target,
  as it was.
\<close>

theorem C6_no_op_transitions:
  assumes "authenticate_credentials db cred = Inr (Some a)" and "role a = ''admin''"
    and "objects_get db i = Some u"
  shows "(status u = ''active'' \<longrightarrow>
            dispatch fw now db cred (POST_admin_users_id_activate i) =
              (Inr (Response (JObj [(''success'', JBool False),
                      (''message'', JStr ''User is already active.'')]) 400), db))
       \<and> (status u = ''inactive'' \<and> i \<noteq> user_id a \<longrightarrow>
            dispatch fw now db cred (POST_admin_users_id_deactivate i) =
              (Inr (Response (JObj [(''success'', JBool False),
                      (''message'', JStr ''User is already inactive.'')]) 400), db))"
  using assms objects_get_id [OF assms(3)]
  by (simp add: dispatch_def initial_def as_user_def AdminDeactivateUserView_post_def
      AdminActivateUserView_post_def get_object_or_404_def)

theorem C6_no_op_transitions_witness:
  "dispatch test_framework 5 setUp (AccessToken 1) (POST_admin_users_id_activate 2) =
      (Inr (Response (JObj [(''success'', JBool False),
              (''message'', JStr ''User is already active.'')]) 400), setUp)
   \<and> dispatch test_framework 5 [admin_user, regular_user\<lparr>status := ''inactive''\<rparr>]
        (AccessToken 1) (POST_admin_users_id_deactivate 2) =
      (Inr (Response (JObj [(''success'', JBool False),
              (''message'', JStr ''User is already inactive.'')]) 400),
       [admin_user, regular_user\<lparr>status := ''inactive''\<rparr>])"
proof -
  let ?db = "[admin_user, regular_user\<lparr>status := ''inactive''\<rparr>]"
  have r: "role admin_user = ''admin''" and i: "user_id admin_user = 1"
    by (simp_all add: admin_user_def)
  have g: "objects_get setUp 2 = Some regular_user"
    by (simp add: objects_get_def setUp_def admin_user_def regular_user_def)
  have s: "status regular_user = ''active''"
    by (simp add: regular_user_def)
  have a': "authenticate_credentials ?db (AccessToken 1) = Inr (Some admin_user)"
    by (simp add: authenticate_credentials_def objects_get_def admin_user_def)
  have g': "objects_get ?db 2 = Some (regular_user\<lparr>status := ''inactive''\<rparr>)"
    by (simp add: objects_get_def admin_user_def regular_user_def)
  show ?thesis
    using C6_no_op_transitions [OF setUp_admin_token r g, of test_framework 5]
      C6_no_op_transitions [OF a' r g', of test_framework 5] s i
    by simp
qed

subsection \<open>Access policy\<close>

text \<open>
  C4, as stated, fails: a request to the user list without credentials is answered 401,
  not 403.
\<close>

theorem C4_counterexample:
  "dispatch test_framework 5 setUp NoCredentials (GET_admin_users Map.empty) =
     (Inr (Response (custom_response_data
        ''Authentication credentials were not provided.'' JNull) 401), setUp)"
  by (simp add: dispatch_def initial_def authenticate_credentials_def permission_denied_def
      handle_exception_def custom_exception_handler_def exception_handler_def)

text \<open>
  C4, amended. On every path under \<open>admin/\<close>, a request that authenticates as an account
  whose role is not \<open>admin\<close> is answered 403 with the message of \<open>IsAdmin\<close>, and a
  request that does not authenticate as any account (no credentials, or a token that is
  invalid or expired) is answered 401; in both cases the store is left as it was.
\<close>

theorem C4_admin_paths_refuse_non_admins:
  assumes "resolve req \<in> set admin_views"
  shows "(\<forall>u. authenticate_credentials db cred = Inr (Some u) \<and> role u \<noteq> ''admin'' \<longrightarrow>
            dispatch fw now db cred req =
              (Inr (Response (custom_response_data
                 ''You must be an admin to perform this action.'' JNull) 403), db))
       \<and> ((\<forall>u. authenticate_credentials db cred \<noteq> Inr (Some u)) \<longrightarrow>
            (\<exists>r. dispatch fw now db cred req = (Inr r, db) \<and> status_code r = 401))"
proof (intro conjI allI impI)
  fix u
  assume "authenticate_credentials db cred = Inr (Some u) \<and> role u \<noteq> ''admin''"
  then show "dispatch fw now db cred req =
       (Inr (Response (custom_response_data
          ''You must be an admin to perform this action.'' JNull) 403), db)"
    by (simp add: dispatch_def initial_def admin_view_permissions [OF assms]
        permission_denied_def handle_exception_def custom_exception_handler_def
        exception_handler_def)
next
  assume no: "\<forall>u. authenticate_credentials db cred \<noteq> Inr (Some u)"
  show "\<exists>r. dispatch fw now db cred req = (Inr r, db) \<and> status_code r = 401"
  proof (cases "authenticate_credentials db cred")
    case (Inl e)
    then obtain d where "e = AuthenticationFailed d"
      by (auto simp: authenticate_credentials_def split: credentials.splits option.splits if_splits)
    with Inl show ?thesis
      by (simp add: dispatch_def initial_def handle_exception_def custom_exception_handler_def
          exception_handler_def Response_def)
  next
    case (Inr request_user)
    with no have "request_user = None" by (cases request_user) auto
    with Inr show ?thesis
      by (simp add: dispatch_def initial_def admin_view_permissions [OF assms]
          permission_denied_def handle_exception_def custom_exception_handler_def
          exception_handler_def Response_def)
  qed
qed

theorem C4_admin_paths_refuse_non_admins_witness:
  "resolve (GET_admin_users_id 1) \<in> set admin_views
   \<and> authenticate_credentials setUp (AccessToken 2) = Inr (Some regular_user)
   \<and> role regular_user \<noteq> ''admin''
   \<and> dispatch test_framework 5 setUp (AccessToken 2) (GET_admin_users_id 1) =
        (Inr (Response (custom_response_data
           ''You must be an admin to perform this action.'' JNull) 403), setUp)
   \<and> (\<exists>r. dispatch test_framework 5 setUp InvalidToken (GET_admin_users_id 1) = (Inr r, setUp)
          \<and> status_code r = 401)"
proof -
  have v: "resolve (GET_admin_users_id 1) \<in> set admin_views"
    by (simp add: admin_views_def)
  have r: "role regular_user \<noteq> ''admin''"
    by (simp add: regular_user_def)
  have n: "\<forall>u. authenticate_credentials setUp InvalidToken \<noteq> Inr (Some u)"
    by (simp add: authenticate_credentials_def)
  show ?thesis
    using C4_admin_paths_refuse_non_admins [OF v, of setUp "AccessToken 2" test_framework 5]
      C4_admin_paths_refuse_non_admins [OF v, of setUp InvalidToken test_framework 5]
      v r n setUp_user_token
    by blast
qed

text \<open>
  C10. An account whose role is \<open>admin\<close> and whose status is \<open>inactive\<close> passes the
  permission classes of every view under \<open>admin/\<close>: they are \<open>IsAuthenticated\<close> and
  \<open>IsAdmin\<close> only, although \<open>IsActiveUser\<close> would refuse the account; a request
  authenticated as that account passes the initial checks of the view.
\<close>

theorem C10_inactive_admin_passes:
  assumes "role u = ''admin''" and "status u = ''inactive''" and "v \<in> set admin_views"
  shows "permission_classes v = [IsAuthenticated, IsAdmin]
     \<and> check_permissions (permission_classes v) (Some u) = None
     \<and> \<not> has_permission IsActiveUser (Some u)
     \<and> (authenticate_credentials db cred = Inr (Some u) \<longrightarrow> initial db cred v = Inr (Some u))"
  using assms by (auto simp: admin_views_def initial_def)

theorem C10_inactive_admin_passes_witness:
  "role (admin_user\<lparr>status := ''inactive''\<rparr>) = ''admin''
   \<and> status (admin_user\<lparr>status := ''inactive''\<rparr>) = ''inactive''
   \<and> AdminDeactivateUserView \<in> set admin_views
   \<and> check_permissions (permission_classes AdminDeactivateUserView)
        (Some (admin_user\<lparr>status := ''inactive''\<rparr>)) = None
   \<and> authenticate_credentials [admin_user\<lparr>status := ''inactive''\<rparr>] (AccessToken 1)
        = Inr (Some (admin_user\<lparr>status := ''inactive''\<rparr>))
   \<and> initial [admin_user\<lparr>status := ''inactive''\<rparr>] (AccessToken 1) AdminDeactivateUserView
        = Inr (Some (admin_user\<lparr>status := ''inactive''\<rparr>))"
proof -
  let ?u = "admin_user\<lparr>status := ''inactive''\<rparr>"
  have r: "role ?u = ''admin''" and s: "status ?u = ''inactive''"
    by (simp_all add: admin_user_def)
  have v: "AdminDeactivateUserView \<in> set admin_views"
    by (simp add: admin_views_def)
  have a: "authenticate_credentials [?u] (AccessToken 1) = Inr (Some ?u)"
    by (simp add: authenticate_credentials_def objects_get_def admin_user_def)
  show ?thesis
    using C10_inactive_admin_passes [OF r s v, of "[?u]" "AccessToken 1"] r s v a by simp
qed

subsection \<open>Evaluation of the string, pattern and field helpers\<close>

lemmas string_eval = lower_def lower_char_def strip_def isspace_def code_def

lemmas regex_eval = re_match_anchored_def email_regex_def Plus_def cls_local_def cls_domain_def
  cls_alpha_def cls_lower_def cls_upper_def cls_digit_def code_def

lemmas field_eval = then_validate_def CharField_def run_validators_def UniqueValidator_def
  MaxLengthValidator_def MinLengthValidator_def ProhibitNullCharactersValidator_def
  email_format_def field_errors_def

subsection \<open>Login with a deactivated account\<close>

lemma CharField_value: "CharField validators primitive = Inr v \<Longrightarrow> \<exists>s. primitive = Some s \<and> v = strip s"
  by (auto simp: CharField_def split: option.splits if_splits list.splits)

lemma get_by_natural_key_unique:
  "u \<in> set db \<Longrightarrow> distinct (map email db) \<Longrightarrow> get_by_natural_key db (email u) = Some u"
  unfolding get_by_natural_key_def
  by (induction db) (auto simp: image_iff)

lemma login_refused:
  assumes "u \<in> set db" and "distinct (map email db)" and "status u = ''inactive''"
    and "data ''email'' = Some e" and "lower (strip e) = email u"
  shows "\<exists>errs. UserLoginSerializer_is_valid fw db data = Inl errs"
proof (cases "CharField [ProhibitNullCharactersValidator, email_format fw] (data ''email'')")
  case (Inl m)
  then show ?thesis
    by (simp add: UserLoginSerializer_is_valid_def then_validate_def split: sum.splits)
next
  case email_ok: (Inr v)
  with assms(4) have v: "v = strip e"
    by (auto dest: CharField_value)
  show ?thesis
  proof (cases "CharField [ProhibitNullCharactersValidator] (data ''password'')")
    case (Inl m)
    with email_ok show ?thesis
      by (simp add: UserLoginSerializer_is_valid_def then_validate_def
          UserLoginSerializer_validate_email_def)
  next
    case (Inr pw)
    have "authenticate fw db (email u) pw = None \<or> authenticate fw db (email u) pw = Some u"
      by (simp add: authenticate_def get_by_natural_key_unique [OF assms(1,2)])
    with email_ok Inr v assms(3,5) show ?thesis
      by (auto simp: UserLoginSerializer_is_valid_def then_validate_def
          UserLoginSerializer_validate_email_def UserLoginSerializer_validate_def)
  qed
qed

text \<open>
  C8. A login request whose e-mail, stripped and lower-cased as the serializer does, is the
  e-mail of an account with status \<open>inactive\<close> (e-mails being unique in the store) is
  answered 400 with a validation error, whatever the password and whether or not it
  verifies; the body carries no \<open>data\<close>, so no tokens, and the store is left as it was, so
  \<open>last_login\<close> too. The request is assumed to pass the authentication step of the
  framework, as one without an authorization header does.
\<close>

theorem C8_inactive_login_refused:
  assumes "u \<in> set db" and "distinct (map email db)" and "status u = ''inactive''"
    and "data ''email'' = Some e" and "lower (strip e) = email u"
    and "authenticate_credentials db cred = Inr request_user"
  shows "\<exists>errs. dispatch fw now db cred (POST_auth_login data) =
           (Inr (Response (JObj [(''success'', JBool False), (''message'', JStr ''Validation error''),
                                 (''errors'', errors_json errs)]) 400), db)"
proof -
  obtain errs where "UserLoginSerializer_is_valid fw db data = Inl errs"
    using login_refused [where u = u and db = db and data = data and e = e and fw = fw]
      assms(1-5) by blast
  with assms(6) have "dispatch fw now db cred (POST_auth_login data) =
           (Inr (Response (JObj [(''success'', JBool False), (''message'', JStr ''Validation error''),
                                 (''errors'', errors_json errs)]) 400), db)"
    by (simp add: dispatch_def initial_def LoginView_post_def validation_error_response_def)
  then show ?thesis by blast
qed

theorem C8_inactive_login_refused_witness:
  "dispatch test_framework 5 [admin_user, regular_user\<lparr>status := ''inactive''\<rparr>] NoCredentials
     (POST_auth_login [''email'' \<mapsto> ''Regular@Example.com'', ''password'' \<mapsto> ''RegularPass123!'']) =
       (Inr (Response (JObj [(''success'', JBool False), (''message'', JStr ''Validation error''),
          (''errors'', errors_json [(''detail'',
             [''Your account has been deactivated. Please contact an administrator.''])])]) 400),
        [admin_user, regular_user\<lparr>status := ''inactive''\<rparr>])"
proof -
  let ?u = "regular_user\<lparr>status := ''inactive''\<rparr>"
  let ?db = "[admin_user, ?u]"
  let ?data = "[''email'' \<mapsto> ''Regular@Example.com'', ''password'' \<mapsto> ''RegularPass123!'']"
  have 1: "?u \<in> set ?db" by simp
  have 2: "distinct (map email ?db)" by (simp add: admin_user_def regular_user_def)
  have 3: "status ?u = ''inactive''" by simp
  have 4: "?data ''email'' = Some ''Regular@Example.com''" by simp
  have 5: "lower (strip ''Regular@Example.com'') = email ?u"
    by (simp add: lower_def lower_char_def strip_def isspace_def code_def regular_user_def)
  have 6: "authenticate_credentials ?db NoCredentials = Inr None"
    by (simp add: authenticate_credentials_def)
  have v: "UserLoginSerializer_is_valid test_framework ?db ?data =
      Inl [(''detail'', [''Your account has been deactivated. Please contact an administrator.''])]"
    by (simp add: UserLoginSerializer_is_valid_def then_validate_def CharField_def
        run_validators_def ProhibitNullCharactersValidator_def email_format_def
        UserLoginSerializer_validate_email_def UserLoginSerializer_validate_def authenticate_def
        get_by_natural_key_def test_framework_def admin_user_def regular_user_def
        lower_def lower_char_def strip_def isspace_def code_def)
  from C8_inactive_login_refused [where u = "?u" and db = "?db" and data = "?data"
      and e = "''Regular@Example.com''" and cred = NoCredentials and request_user = None
      and fw = test_framework and now = 5] 1 2 3 4 5 6
  obtain errs where "dispatch test_framework 5 ?db NoCredentials (POST_auth_login ?data) =
     (Inr (Response (JObj [(''success'', JBool False), (''message'', JStr ''Validation error''),
                                 (''errors'', errors_json errs)]) 400), ?db)"
    by blast
  moreover have "dispatch test_framework 5 ?db NoCredentials (POST_auth_login ?data) =
     (Inr (validation_error_response
        [(''detail'', [''Your account has been deactivated. Please contact an administrator.''])]), ?db)"
    using v 6 by (simp add: dispatch_def initial_def LoginView_post_def)
  ultimately show ?thesis
    by (simp add: validation_error_response_def)
qed

subsection \<open>Signup with an e-mail that differs from a stored one by letter case\<close>

lemma email_regex_root: "re_match_anchored email_regex ''root@example.com''"
  by (simp add: regex_eval)

lemma seed:
  "create_superuser test_framework 1 [] ''Root@Example.com'' ''RootPass123!'' ''Root User'' =
     Inr (admin_user\<lparr>email := ''Root@example.com'', full_name := ''Root User'',
                       password := ''hash$RootPass123!''\<rparr>,
          [admin_user\<lparr>email := ''Root@example.com'', full_name := ''Root User'',
                       password := ''hash$RootPass123!''\<rparr>])"
  by (simp add: create_superuser_def create_user_def insert_row_def email_exists_def
      normalize_email_def rsplit_at_def string_eval
      new_user_def admin_user_def test_framework_def next_id_def Let_def)

lemma signup_valid:
  "UserSignupSerializer_is_valid test_framework
     [admin_user\<lparr>email := ''Root@example.com'', full_name := ''Root User'',
                  password := ''hash$RootPass123!''\<rparr>]
     [''email'' \<mapsto> ''root@example.com'', ''full_name'' \<mapsto> ''Second Root'',
      ''password'' \<mapsto> ''Abcdef1!'', ''confirm_password'' \<mapsto> ''Abcdef1!'']
   = Inr (''root@example.com'', ''Second Root'', ''Abcdef1!'', ''Abcdef1!'')"
  by (simp add: UserSignupSerializer_is_valid_def then_validate_def CharField_def
      run_validators_def UniqueValidator_def MaxLengthValidator_def MinLengthValidator_def
      ProhibitNullCharactersValidator_def email_format_def
      UserSignupSerializer_validate_email_def email_regex_root email_exists_def
      UserSignupSerializer_validate_full_name_def UserSignupSerializer_validate_password_def
      UserSignupSerializer_validate_def
      cls_upper_def cls_lower_def cls_digit_def cls_special_def
      test_framework_def admin_user_def string_eval)

text \<open>
  Against a stored e-mail that is in lower case the check does what is asked: the signup
  is answered 400 with an error keyed by \<open>email\<close>, and nothing is stored.
\<close>

lemma signup_rejects_stored_lower_case_email:
  assumes "r \<in> set db" and "data ''email'' = Some e" and "email r = lower (strip e)"
    and "authenticate_credentials db cred = Inr request_user"
  shows "\<exists>m rest. dispatch fw now db cred (POST_auth_signup data) =
           (Inr (validation_error_response ((''email'', m) # rest)), db)"
proof -
  let ?r_email = "then_validate
            (CharField [UniqueValidator db None, MaxLengthValidator 255,
                        ProhibitNullCharactersValidator, email_format fw] (data ''email''))
            (UserSignupSerializer_validate_email db)"
  have "email_exists db (lower (strip e))"
    using assms(1,3) by (auto simp: email_exists_def list_ex_iff)
  then have "\<exists>m. ?r_email = Inl m"
    using assms(2)
    by (auto simp: then_validate_def UserSignupSerializer_validate_email_def
        split: sum.splits dest: CharField_value)
  then obtain m where "?r_email = Inl m" by blast
  then have "\<exists>rest. UserSignupSerializer_is_valid fw db data = Inl ((''email'', m) # rest)"
    by (simp add: UserSignupSerializer_is_valid_def field_errors_def Let_def
        split: sum.splits)
  then obtain rest where "UserSignupSerializer_is_valid fw db data = Inl ((''email'', m) # rest)"
    by blast
  with assms(4) have "dispatch fw now db cred (POST_auth_signup data) =
           (Inr (validation_error_response ((''email'', m) # rest)), db)"
    by (simp add: dispatch_def initial_def SignupView_post_def)
  then show ?thesis by blast
qed

text \<open>
  C2. The claim asks that a signup whose e-mail equals a stored one up to letter case fails
  validation and creates no row. The code does otherwise when the stored e-mail has a
  capital in its local part, which \<open>create_superuser\<close> allows: seeded with
  \<open>Root@Example.com\<close>, the store holds \<open>Root@example.com\<close>; the signup of
  \<open>root@example.com\<close> is then answered 201 and a second row is stored.
\<close>

theorem C2_case_variant_signup_accepted:
  "create_superuser test_framework 1 [] ''Root@Example.com'' ''RootPass123!'' ''Root User'' =
     Inr (admin_user\<lparr>email := ''Root@example.com'', full_name := ''Root User'',
                       password := ''hash$RootPass123!''\<rparr>,
          [admin_user\<lparr>email := ''Root@example.com'', full_name := ''Root User'',
                       password := ''hash$RootPass123!''\<rparr>])
   \<and> map_sum id status_code (fst (dispatch test_framework 2
        [admin_user\<lparr>email := ''Root@example.com'', full_name := ''Root User'',
                     password := ''hash$RootPass123!''\<rparr>]
        NoCredentials
        (POST_auth_signup [''email'' \<mapsto> ''root@example.com'', ''full_name'' \<mapsto> ''Second Root'',
           ''password'' \<mapsto> ''Abcdef1!'', ''confirm_password'' \<mapsto> ''Abcdef1!'']))) = Inr 201
   \<and> map email (snd (dispatch test_framework 2
        [admin_user\<lparr>email := ''Root@example.com'', full_name := ''Root User'',
                     password := ''hash$RootPass123!''\<rparr>]
        NoCredentials
        (POST_auth_signup [''email'' \<mapsto> ''root@example.com'', ''full_name'' \<mapsto> ''Second Root'',
           ''password'' \<mapsto> ''Abcdef1!'', ''confirm_password'' \<mapsto> ''Abcdef1!''])))
      = [''Root@example.com'', ''root@example.com'']"
  using seed signup_valid
  by (simp add: dispatch_def initial_def authenticate_credentials_def SignupView_post_def
      UserSignupSerializer_create_def create_user_def insert_row_def email_exists_def
      normalize_email_def rsplit_at_def string_eval Response_def
      new_user_def admin_user_def test_framework_def next_id_def Let_def)

subsection \<open>What a request writes\<close>

lemma objects_get_update_row:
  "(\<And>r. user_id r = j \<Longrightarrow> user_id (f r) = j) \<Longrightarrow>
   objects_get (update_row db j f) i =
     map_option (\<lambda>r. if user_id r = j then f r else r) (objects_get db i)"
  unfolding objects_get_def update_row_def
  by (induction db) auto

lemma objects_get_append:
  "objects_get (db @ [u]) i =
     (case objects_get db i of
        Some r \<Rightarrow> Some r
      | None \<Rightarrow> if user_id u = i then Some u else None)"
  unfolding objects_get_def by (induction db) auto

lemma updated_at_update_last_login:
  "map updated_at (update_row db j (\<lambda>r. r\<lparr>last_login := t\<rparr>)) = map updated_at db"
  unfolding update_row_def by (induction db) auto

lemma signup_store:
  "SignupView_post fw now db data = Inr (r, db') \<Longrightarrow>
     db' = db \<or> (\<exists>u'. db' = db @ [u'] \<and> created_at u' = now \<and> updated_at u' = now)"
  by (auto simp: SignupView_post_def UserSignupSerializer_create_def create_user_def
      insert_row_def Let_def split: sum.splits if_splits prod.splits)

lemma login_store:
  "LoginView_post fw now db data = Inr (r, db') \<Longrightarrow>
     db' = db \<or> (\<exists>j. db' = update_row db j (\<lambda>r. r\<lparr>last_login := Some now\<rparr>))"
  by (auto simp: LoginView_post_def update_last_login_def split: sum.splits)

lemma stampedI:
  "db' = update_row db j f \<Longrightarrow>
   (\<And>r. user_id r = j \<Longrightarrow> user_id (f r) = j \<and> updated_at (f r) = now) \<Longrightarrow>
   \<exists>j f. db' = update_row db j f
      \<and> (\<forall>r. user_id r = j \<longrightarrow> user_id (f r) = j \<and> updated_at (f r) = now)"
  by blast

lemma save_store:
  assumes "save now db u = Inr (u', db')"
  shows "\<exists>j f. db' = update_row db j f
      \<and> (\<forall>r. user_id r = j \<longrightarrow> user_id (f r) = j \<and> updated_at (f r) = now)"
proof (rule stampedI)
  show "db' = update_row db (user_id u) (\<lambda>r. u\<lparr>updated_at := now\<rparr>)"
    using assms by (auto simp: save_def split: if_splits)
qed simp

lemma put_store:
  "UserProfileView_put fw now db u data = Inr (r, db') \<Longrightarrow>
     db' = db \<or> (\<exists>j f. db' = update_row db j f
        \<and> (\<forall>r. user_id r = j \<longrightarrow> user_id (f r) = j \<and> updated_at (f r) = now))"
  by (auto simp: UserProfileView_put_def UserUpdateSerializer_update_def
      split: sum.splits prod.splits dest!: save_store)

lemma change_password_store:
  "ChangePasswordView_post fw now db u data = Inr (r, db') \<Longrightarrow>
     db' = db \<or> (\<exists>j f. db' = update_row db j f
        \<and> (\<forall>r. user_id r = j \<longrightarrow> user_id (f r) = j \<and> updated_at (f r) = now))"
  by (auto simp: ChangePasswordView_post_def split: sum.splits prod.splits dest!: save_store)

lemma activate_store:
  assumes "AdminActivateUserView_post now db i = Inr (r, db')"
  shows "db' = db \<or> (\<exists>j f. db' = update_row db j f
        \<and> (\<forall>r. user_id r = j \<longrightarrow> user_id (f r) = j \<and> updated_at (f r) = now))"
proof (cases "get_object_or_404 db i")
  case (Inl e)
  with assms show ?thesis by (simp add: AdminActivateUserView_post_def)
next
  case (Inr u)
  show ?thesis
  proof (cases "status u = ''active''")
    case True
    with Inr assms show ?thesis by (simp add: AdminActivateUserView_post_def)
  next
    case False
    with Inr assms have
      "db' = update_row db (user_id u) (\<lambda>r. r\<lparr>status := ''active'', updated_at := now\<rparr>)"
      by (simp add: AdminActivateUserView_post_def activate_def)
    then show ?thesis
      by (intro disjI2 stampedI [where j = "user_id u"
            and f = "\<lambda>r. r\<lparr>status := ''active'', updated_at := now\<rparr>"]) simp_all
  qed
qed

lemma deactivate_store:
  assumes "AdminDeactivateUserView_post now db a i = Inr (r, db')"
  shows "db' = db \<or> (\<exists>j f. db' = update_row db j f
        \<and> (\<forall>r. user_id r = j \<longrightarrow> user_id (f r) = j \<and> updated_at (f r) = now))"
proof (cases "get_object_or_404 db i")
  case (Inl e)
  with assms show ?thesis by (simp add: AdminDeactivateUserView_post_def)
next
  case (Inr u)
  show ?thesis
  proof (cases "user_id u = user_id a \<or> status u = ''inactive''")
    case True
    with Inr assms have "db' = db"
      by (auto simp: AdminDeactivateUserView_post_def split: if_splits)
    then show ?thesis by simp
  next
    case False
    with Inr assms have
      "db' = update_row db (user_id u) (\<lambda>r. r\<lparr>status := ''inactive'', updated_at := now\<rparr>)"
      by (simp add: AdminDeactivateUserView_post_def deactivate_def)
    then show ?thesis
      by (intro disjI2 stampedI [where j = "user_id u"
            and f = "\<lambda>r. r\<lparr>status := ''inactive'', updated_at := now\<rparr>"]) simp_all
  qed
qed

lemma handler_store:
  assumes "handler fw now db request_user req = Inr (r, db')"
  shows "db' = db
     \<or> (\<exists>u'. db' = db @ [u'] \<and> created_at u' = now \<and> updated_at u' = now)
     \<or> (\<exists>j f. db' = update_row db j f
          \<and> (\<forall>r. user_id r = j \<longrightarrow> user_id (f r) = j \<and> updated_at (f r) = now))
     \<or> ((\<exists>data. req = POST_auth_login data)
          \<and> (\<exists>j. db' = update_row db j (\<lambda>r. r\<lparr>last_login := Some now\<rparr>)))"
proof (cases req)
  case (POST_auth_signup data)
  with assms signup_store [of fw now db data r db'] show ?thesis by auto
next
  case (POST_auth_login data)
  with assms login_store [of fw now db data r db'] show ?thesis by auto
next
  case (PUT_users_profile data)
  with assms show ?thesis
    by (auto simp: as_user_def split: sum.splits option.splits dest: put_store)
next
  case (POST_users_change_password data)
  with assms show ?thesis
    by (auto simp: as_user_def split: sum.splits option.splits dest: change_password_store)
next
  case (POST_admin_users_id_activate i)
  with assms show ?thesis by (auto dest: activate_store)
next
  case (POST_admin_users_id_deactivate i)
  with assms show ?thesis
    by (auto simp: as_user_def split: sum.splits option.splits dest: deactivate_store)
qed (use assms in \<open>auto split: sum.splits\<close>)

lemma dispatch_store:
  "snd (dispatch fw now db cred req) = db
     \<or> (\<exists>u'. snd (dispatch fw now db cred req) = db @ [u']
          \<and> created_at u' = now \<and> updated_at u' = now)
     \<or> (\<exists>j f. snd (dispatch fw now db cred req) = update_row db j f
          \<and> (\<forall>r. user_id r = j \<longrightarrow> user_id (f r) = j \<and> updated_at (f r) = now))
     \<or> ((\<exists>data. req = POST_auth_login data)
          \<and> (\<exists>j. snd (dispatch fw now db cred req)
                 = update_row db j (\<lambda>r. r\<lparr>last_login := Some now\<rparr>)))"
proof (cases "initial db cred (resolve req)")
  case (Inl e)
  then show ?thesis by (simp add: dispatch_def)
next
  case (Inr request_user)
  show ?thesis
  proof (cases "handler fw now db request_user req")
    case (Inl e)
    with Inr show ?thesis by (simp add: dispatch_def)
  next
    case handled: (Inr p)
    obtain r db' where p: "p = (r, db')" by (cases p)
    with Inr handled have "snd (dispatch fw now db cred req) = db'"
      by (simp add: dispatch_def)
    with handler_store [of fw now db request_user req r db'] handled p show ?thesis
      by simp
  qed
qed

lemma login_regular:
  "dispatch test_framework 9 setUp NoCredentials
     (POST_auth_login [''email'' \<mapsto> ''regular@example.com'', ''password'' \<mapsto> ''RegularPass123!'']) =
   (Inr (Response (JObj [(''success'', JBool True), (''message'', JStr ''Login successful.''),
      (''data'', JObj [(''user'', UserSerializer_data (regular_user\<lparr>last_login := Some 9\<rparr>)),
                       (''tokens'', JObj [(''refresh'', JStr ''refresh''),
                                          (''access'', JStr ''access'')])])]) 200),
    [admin_user, regular_user\<lparr>last_login := Some 9\<rparr>])"
  by (simp add: dispatch_def initial_def authenticate_credentials_def LoginView_post_def
      UserLoginSerializer_is_valid_def field_eval UserLoginSerializer_validate_email_def
      UserLoginSerializer_validate_def authenticate_def get_by_natural_key_def
      update_last_login_def update_row_def get_tokens_for_user_def
      test_framework_def setUp_def admin_user_def regular_user_def string_eval)

lemma deactivate_regular:
  "dispatch test_framework 9 setUp (AccessToken 1) (POST_admin_users_id_deactivate 2) =
     (Inr (Response (JObj [(''success'', JBool True),
        (''message'', JStr ''User regular@example.com has been deactivated successfully.''),
        (''data'', JObj [(''user'', UserSerializer_data
            (regular_user\<lparr>status := ''inactive'', updated_at := 9\<rparr>))])]) 200),
      [admin_user, regular_user\<lparr>status := ''inactive'', updated_at := 9\<rparr>])"
  using setUp_admin_token
  by (simp add: dispatch_def initial_def as_user_def AdminDeactivateUserView_post_def
      get_object_or_404_def objects_get_def deactivate_def update_row_def
      setUp_def admin_user_def regular_user_def)

lemma signup_newuser:
  "snd (dispatch test_framework 9 setUp NoCredentials
     (POST_auth_signup [''email'' \<mapsto> ''newuser@example.com'', ''full_name'' \<mapsto> ''New User'',
        ''password'' \<mapsto> ''NewUserPass123!'', ''confirm_password'' \<mapsto> ''NewUserPass123!''])) =
   [admin_user, regular_user,
    new_user\<lparr>user_id := 3, email := ''newuser@example.com'', full_name := ''New User'',
      password := ''hash$NewUserPass123!'', created_at := 9, updated_at := 9\<rparr>]"
  by (simp add: dispatch_def initial_def authenticate_credentials_def SignupView_post_def
      UserSignupSerializer_is_valid_def field_eval UserSignupSerializer_validate_email_def
      regex_eval email_exists_def UserSignupSerializer_validate_full_name_def
      UserSignupSerializer_validate_password_def UserSignupSerializer_validate_def
      cls_special_def UserSignupSerializer_create_def create_user_def insert_row_def
      normalize_email_def rsplit_at_def next_id_def Let_def string_eval
      new_user_def setUp_def admin_user_def regular_user_def test_framework_def)

text \<open>
  C5, as stated, fails: the successful login of the regular user of the fixture at time 9
  sets \<open>last_login\<close> to 9 and leaves \<open>updated_at\<close> at 2.
\<close>

theorem C5_counterexample:
  "map_sum id status_code (fst (dispatch test_framework 9 setUp NoCredentials
     (POST_auth_login [''email'' \<mapsto> ''regular@example.com'',
                       ''password'' \<mapsto> ''RegularPass123!'']))) = Inr 200
   \<and> map last_login setUp = [None, None]
   \<and> map last_login (snd (dispatch test_framework 9 setUp NoCredentials
     (POST_auth_login [''email'' \<mapsto> ''regular@example.com'',
                       ''password'' \<mapsto> ''RegularPass123!'']))) = [None, Some 9]
   \<and> map updated_at (snd (dispatch test_framework 9 setUp NoCredentials
     (POST_auth_login [''email'' \<mapsto> ''regular@example.com'',
                       ''password'' \<mapsto> ''RegularPass123!'']))) = [1, 2]"
  by (simp only: login_regular) (simp add: Response_def setUp_def admin_user_def regular_user_def)

text \<open>
  C5, amended. Whatever the request, an account of the store is afterwards either as it
  was, or has \<open>updated_at\<close> equal to the time of the request, or, for a login, differs
  only in \<open>last_login\<close>; an account that the request created has \<open>created_at\<close> and
  \<open>updated_at\<close> equal to the time of the request; and a login leaves \<open>updated_at\<close> of
  every account as it was.
\<close>

theorem C5_updated_at_on_writes:
  "(\<forall>i u. objects_get db i = Some u \<longrightarrow>
       (\<exists>u'. objects_get (snd (dispatch fw now db cred req)) i = Some u'
          \<and> (u' = u \<or> updated_at u' = now
             \<or> ((\<exists>data. req = POST_auth_login data) \<and> u' = u\<lparr>last_login := Some now\<rparr>))))
   \<and> (\<forall>i u'. objects_get db i = None
          \<and> objects_get (snd (dispatch fw now db cred req)) i = Some u'
         \<longrightarrow> created_at u' = now \<and> updated_at u' = now)
   \<and> ((\<exists>data. req = POST_auth_login data) \<longrightarrow>
         map updated_at (snd (dispatch fw now db cred req)) = map updated_at db)"
proof -
  let ?db' = "snd (dispatch fw now db cred req)"
  consider (same) "?db' = db"
    | (new) u' where "?db' = db @ [u']" "created_at u' = now" "updated_at u' = now"
    | (stamped) j f where "?db' = update_row db j f"
        "\<And>r. user_id r = j \<Longrightarrow> user_id (f r) = j \<and> updated_at (f r) = now"
    | (login) data j where "req = POST_auth_login data"
        "?db' = update_row db j (\<lambda>r. r\<lparr>last_login := Some now\<rparr>)"
    using dispatch_store [of fw now db cred req] by blast
  note effect = this
  have rows: "\<forall>i u. objects_get db i = Some u \<longrightarrow>
       (\<exists>u'. objects_get ?db' i = Some u'
          \<and> (u' = u \<or> updated_at u' = now
             \<or> ((\<exists>data. req = POST_auth_login data) \<and> u' = u\<lparr>last_login := Some now\<rparr>)))"
  proof (cases rule: effect)
    case same
    then show ?thesis by simp
  next
    case new
    then show ?thesis by (simp add: objects_get_append)
  next
    case stamped
    then show ?thesis by (auto simp: objects_get_update_row)
  next
    case login
    then show ?thesis by (auto simp: objects_get_update_row)
  qed
  have fresh: "\<forall>i u'. objects_get db i = None \<and> objects_get ?db' i = Some u'
         \<longrightarrow> created_at u' = now \<and> updated_at u' = now"
  proof (cases rule: effect)
    case same
    then show ?thesis by auto
  next
    case new
    then show ?thesis by (auto simp: objects_get_append split: if_splits)
  next
    case stamped
    then show ?thesis by (auto simp: objects_get_update_row)
  next
    case login
    then show ?thesis by (auto simp: objects_get_update_row)
  qed
  have "map updated_at ?db' = map updated_at db" if "req = POST_auth_login data" for data
  proof -
    have "?db' = db \<or> (\<exists>j. ?db' = update_row db j (\<lambda>r. r\<lparr>last_login := Some now\<rparr>))"
    proof (cases "initial db cred (resolve req)")
      case (Inl e)
      then show ?thesis by (simp add: dispatch_def)
    next
      case (Inr request_user)
      show ?thesis
      proof (cases "LoginView_post fw now db data")
        case (Inl e)
        with Inr that show ?thesis by (simp add: dispatch_def)
      next
        case handled: (Inr p)
        obtain r db' where p: "p = (r, db')" by (cases p)
        with Inr handled that have "?db' = db'" by (simp add: dispatch_def)
        with login_store [of fw now db data r db'] handled p show ?thesis by simp
      qed
    qed
    then show ?thesis by (auto simp: updated_at_update_last_login)
  qed
  with rows fresh show ?thesis by blast
qed

theorem C5_updated_at_on_writes_witness:
  "objects_get setUp 2 = Some regular_user
   \<and> objects_get (snd (dispatch test_framework 9 setUp NoCredentials
        (POST_auth_login [''email'' \<mapsto> ''regular@example.com'',
                          ''password'' \<mapsto> ''RegularPass123!'']))) 2
       = Some (regular_user\<lparr>last_login := Some 9\<rparr>)
   \<and> map updated_at (snd (dispatch test_framework 9 setUp NoCredentials
        (POST_auth_login [''email'' \<mapsto> ''regular@example.com'',
                          ''password'' \<mapsto> ''RegularPass123!''])))
       = map updated_at setUp
   \<and> objects_get (snd (dispatch test_framework 9 setUp (AccessToken 1)
        (POST_admin_users_id_deactivate 2))) 2
       = Some (regular_user\<lparr>status := ''inactive'', updated_at := 9\<rparr>)
   \<and> objects_get setUp 3 = None
   \<and> objects_get (snd (dispatch test_framework 9 setUp NoCredentials
        (POST_auth_signup [''email'' \<mapsto> ''newuser@example.com'', ''full_name'' \<mapsto> ''New User'',
           ''password'' \<mapsto> ''NewUserPass123!'', ''confirm_password'' \<mapsto> ''NewUserPass123!'']))) 3
       = Some (new_user\<lparr>user_id := 3, email := ''newuser@example.com'',
           full_name := ''New User'', password := ''hash$NewUserPass123!'',
           created_at := 9, updated_at := 9\<rparr>)"
proof -
  let ?login = "POST_auth_login [''email'' \<mapsto> ''regular@example.com'',
                          ''password'' \<mapsto> ''RegularPass123!'']"
  have g2: "objects_get setUp 2 = Some regular_user" and g3: "objects_get setUp 3 = None"
    by (simp_all add: objects_get_def setUp_def admin_user_def regular_user_def)
  have l: "objects_get (snd (dispatch test_framework 9 setUp NoCredentials ?login)) 2
       = Some (regular_user\<lparr>last_login := Some 9\<rparr>)"
    by (simp only: login_regular) (simp add: objects_get_def admin_user_def regular_user_def)
  have d: "objects_get (snd (dispatch test_framework 9 setUp (AccessToken 1)
        (POST_admin_users_id_deactivate 2))) 2
       = Some (regular_user\<lparr>status := ''inactive'', updated_at := 9\<rparr>)"
    by (simp only: deactivate_regular) (simp add: objects_get_def admin_user_def regular_user_def)
  have s: "objects_get (snd (dispatch test_framework 9 setUp NoCredentials
        (POST_auth_signup [''email'' \<mapsto> ''newuser@example.com'', ''full_name'' \<mapsto> ''New User'',
           ''password'' \<mapsto> ''NewUserPass123!'', ''confirm_password'' \<mapsto> ''NewUserPass123!'']))) 3
       = Some (new_user\<lparr>user_id := 3, email := ''newuser@example.com'',
           full_name := ''New User'', password := ''hash$NewUserPass123!'',
           created_at := 9, updated_at := 9\<rparr>)"
    by (simp only: signup_newuser)
       (simp add: objects_get_def admin_user_def regular_user_def new_user_def)
  from C5_updated_at_on_writes [of setUp test_framework 9 NoCredentials ?login]
  have "map updated_at (snd (dispatch test_framework 9 setUp NoCredentials ?login))
       = map updated_at setUp"
    by blast
  with g2 g3 l d s show ?thesis by simp
qed

subsection \<open>Responses do not depend on password hashes\<close>

lemma UserSerializer_data_password:
  "UserSerializer_data (u\<lparr>password := h\<rparr>) = UserSerializer_data u"
  by (simp add: UserSerializer_data_def)






lemma serialize_blank:
  "map UserSerializer_data (map (\<lambda>r. r\<lparr>password := []\<rparr>) xs) = map UserSerializer_data xs"
  by (simp add: UserSerializer_data_password comp_def)











end
